theory Spec2Isabelle
  imports Main "HOL-Library.Sublist"
begin

section \<open>Data model\<close>

text \<open>
  Identifiers of the external packages are opaque in the source (peer.ID,
  graphsync.RequestID, ipld.Link, ipld.Loader, selector nodes); they are modelled by
  numbers. A context is identified by a number; its cancelFn is the act of appending
  that number to the log of cancellations.
\<close>

type_synonym peerID = nat
type_synonym RequestID = int
type_synonym link = nat
type_synonym bytes = "nat list"
type_synonym loaderID = nat
type_synonym chooserID = nat
type_synonym contextID = nat

datatype ResponseStatusCode =
    RequestCompletedFull
  | RequestCompletedPartial
  | RequestPaused
  | RequestCancelled
  | RequestFailedUnknown

text \<open>
  Error values. \<open>ErrPaused\<close> is blockhooks.ErrPaused (responsemanager.go) and
  hooks.ErrPaused (queryExecutor); \<open>ErrCancelledByCommand\<close> is the package variable
  errCancelledByCommand, compared by identity in the source; \<open>ContextCancelError\<close> is
  ipldutil.ContextCancelError; \<open>ErrorsNew s\<close> is any other error value, with message s.
\<close>

datatype error =
    ErrPaused
  | ErrCancelledByCommand
  | ContextCancelError
  | ErrorsNew string

type_synonym extensionData = "string \<times> bytes"

record request =
  reqID :: RequestID
  reqRoot :: link
  reqSelector :: nat
  reqPriority :: int
  reqExtensions :: "extensionData list"
  reqIsCancel :: bool
  reqIsUpdate :: bool

text \<open>
  A traverser is the sequence of (link, data) pairs it has still to yield, and the error
  it ends with, if any.
\<close>

type_synonym traverser = "(link \<times> bytes) list \<times> error option"

record responseKey =
  keyP :: peerID
  keyRequestID :: RequestID

record task =
  Topic :: responseKey
  Priority :: int
  Work :: nat

text \<open>The calls the response manager makes on its QueryQueue.\<close>

datatype queueCall =
    PushTasks peerID task
  | Remove responseKey peerID

record inProgressResponseStatus =
  ctx :: contextID
  request :: request
  loader :: "loaderID option"
  traverser :: "traverser option"
  isPaused :: bool

record responseTaskData =
  tdCtx :: contextID
  tdRequest :: request
  tdLoader :: "loaderID option"
  tdTraverser :: "traverser option"

text \<open>
  The state the serializer owns: the table, the calls made on the task queue so far, the
  workSignal channel of capacity one (True when it holds a value), the cancelFn
  invocations so far (by context, in order) and the number of contexts created.
\<close>

record ResponseManager =
  inProgressResponses :: "responseKey \<rightharpoonup> inProgressResponseStatus"
  queueCalls :: "queueCall list"
  workSignal :: bool
  cancelCalls :: "contextID list"
  nextCtx :: contextID

definition MaxInt32 :: int where
  "MaxInt32 = 2147483647"

section \<open>The message handlers of responsemanager.go\<close>

text \<open>processRequestMessage.handle: the body of the loop over the requests.\<close>

definition handleRequest :: "peerID \<Rightarrow> ResponseManager \<Rightarrow> request \<Rightarrow> ResponseManager" where
  "handleRequest pr rm r =
     (let key = \<lparr>keyP = pr, keyRequestID = reqID r\<rparr> in
      if \<not> reqIsCancel r then
        rm\<lparr>inProgressResponses := (inProgressResponses rm)(key \<mapsto>
              \<lparr>ctx = nextCtx rm, request = r, loader = None, traverser = None,
               isPaused = False\<rparr>),
           nextCtx := Suc (nextCtx rm),
           queueCalls := queueCalls rm @
              [PushTasks pr \<lparr>Topic = key, Priority = reqPriority r, Work = 1\<rparr>],
           workSignal := True\<rparr>
      else
        rm\<lparr>queueCalls := queueCalls rm @ [Remove key (keyP key)],
           cancelCalls := cancelCalls rm @
              (case inProgressResponses rm key of
                 Some response \<Rightarrow> [ctx response]
               | None \<Rightarrow> [])\<rparr>)"

definition processRequestMessage_handle ::
  "peerID \<Rightarrow> request list \<Rightarrow> ResponseManager \<Rightarrow> ResponseManager" where
  "processRequestMessage_handle pr requests rm = foldl (handleRequest pr) rm requests"

text \<open>responseDataRequest.handle: the value sent on taskDataChan (nil when absent).\<close>

definition responseDataRequest_handle ::
  "ResponseManager \<Rightarrow> responseKey \<Rightarrow> responseTaskData option" where
  "responseDataRequest_handle rm key =
     (case inProgressResponses rm key of
        Some response \<Rightarrow>
          Some \<lparr>tdCtx = ctx response, tdRequest = request response,
                tdLoader = loader response, tdTraverser = traverser response\<rparr>
      | None \<Rightarrow> None)"

text \<open>finishTaskRequest.handle (the log line of a failed response is not modelled).\<close>

definition finishTaskRequest_handle ::
  "responseKey \<Rightarrow> error option \<Rightarrow> ResponseManager \<Rightarrow> ResponseManager" where
  "finishTaskRequest_handle key err rm =
     (case inProgressResponses rm key of
        None \<Rightarrow> rm
      | Some response \<Rightarrow>
          if err = Some ErrPaused then
            rm\<lparr>inProgressResponses :=
                 (inProgressResponses rm)(key \<mapsto> response\<lparr>isPaused := True\<rparr>)\<rparr>
          else
            rm\<lparr>inProgressResponses := (inProgressResponses rm)(key := None),
               cancelCalls := cancelCalls rm @ [ctx response]\<rparr>)"

text \<open>setResponseDataRequest.handle\<close>

definition setResponseDataRequest_handle ::
  "responseKey \<Rightarrow> loaderID option \<Rightarrow> traverser option \<Rightarrow> ResponseManager \<Rightarrow> ResponseManager"
  where
  "setResponseDataRequest_handle key ld tr rm =
     (case inProgressResponses rm key of
        None \<Rightarrow> rm
      | Some response \<Rightarrow>
          rm\<lparr>inProgressResponses :=
               (inProgressResponses rm)(key \<mapsto> response\<lparr>loader := ld, traverser := tr\<rparr>)\<rparr>)"

text \<open>unpauseRequestMessage.unpauseRequest: the error returned and the state after.\<close>

definition unpauseRequest ::
  "peerID \<Rightarrow> RequestID \<Rightarrow> ResponseManager \<Rightarrow> error option \<times> ResponseManager" where
  "unpauseRequest pr rid rm =
     (let key = \<lparr>keyP = pr, keyRequestID = rid\<rparr> in
      case inProgressResponses rm key of
        None \<Rightarrow> (Some (ErrorsNew ''could not find request''), rm)
      | Some inProgressResponse \<Rightarrow>
          if \<not> isPaused inProgressResponse then
            (Some (ErrorsNew ''request is not paused''), rm)
          else
            (None,
             rm\<lparr>inProgressResponses :=
                  (inProgressResponses rm)(key \<mapsto> inProgressResponse\<lparr>isPaused := False\<rparr>),
                queueCalls := queueCalls rm @
                  [PushTasks pr \<lparr>Topic = key, Priority = MaxInt32, Work = 1\<rparr>],
                workSignal := True\<rparr>))"

section \<open>The collaborators outside the source\<close>

record blockData =
  bdLink :: link
  bdSize :: nat
  bdIndex :: nat

record requestHookResult =
  rhExtensions :: "extensionData list"
  rhErr :: "error option"
  rhIsValidated :: bool
  rhIsPaused :: bool
  rhCustomLoader :: "loaderID option"
  rhCustomChooser :: "chooserID option"

record hookResult =
  hrExtensions :: "extensionData list"
  hrErr :: "error option"

text \<open>
  The calls made on the sender of one peer (PeerResponseSender, and the transaction
  sender handed to the function of a Transaction), the messages a worker puts on the
  messages channel, and the listener notifications.
\<close>

datatype senderCall =
    SendResponse RequestID link bytes
  | SendExtensionData RequestID extensionData
  | FinishRequest RequestID
  | FinishWithError RequestID ResponseStatusCode
  | FinishWithCancel RequestID
  | PauseRequest RequestID
  | DedupKey RequestID string
  | IgnoreBlocks RequestID "link list"

datatype rmMessage =
    SetResponseDataRequest responseKey "loaderID option" "traverser option"
  | FinishTask responseKey "error option"
  | FinishTaskStatus responseKey ResponseStatusCode "error option"
  | ResponseUpdateRequest responseKey

datatype listenerCall =
    NotifyCancelledListeners peerID request
  | NotifyCompletedListeners peerID request ResponseStatusCode

record effects =
  senderCalls :: "senderCall list"
  messagesSent :: "rmMessage list"
  listenerCalls :: "listenerCall list"
  logLines :: "string list"

text \<open>
  What the source takes from outside: the hook registries, what the sender answers to
  SendResponse and FinishRequest (as a function of the calls made on it so far), the
  decoders of the two extensions, the traversal builder, the manager's default loader
  and the texts of the Error methods of ipldutil.ContextCancelError and hooks.ErrPaused.
\<close>

record collaborators =
  ProcessRequestHooks :: "peerID \<Rightarrow> request \<Rightarrow> requestHookResult"
  ProcessBlockHooks :: "peerID \<Rightarrow> request \<Rightarrow> blockData \<Rightarrow> hookResult"
  ProcessUpdateHooks :: "peerID \<Rightarrow> request \<Rightarrow> request \<Rightarrow> hookResult"
  sendResponseReply :: "senderCall list \<Rightarrow> link \<Rightarrow> bytes \<Rightarrow> blockData"
  finishRequestReply :: "senderCall list \<Rightarrow> ResponseStatusCode"
  DecodeDedupKey :: "bytes \<Rightarrow> error + string"
  DecodeCidSet :: "bytes \<Rightarrow> error + link list"
  TraversalBuilderStart :: "link \<Rightarrow> nat \<Rightarrow> chooserID option \<Rightarrow> contextID \<Rightarrow> traverser"
  defaultLoader :: loaderID
  contextCancelText :: string
  pausedText :: string

definition sendCalls :: "senderCall list \<Rightarrow> effects \<Rightarrow> effects" where
  "sendCalls cs st = st\<lparr>senderCalls := senderCalls st @ cs\<rparr>"

definition sendMessage :: "rmMessage \<Rightarrow> effects \<Rightarrow> effects" where
  "sendMessage m st = st\<lparr>messagesSent := messagesSent st @ [m]\<rparr>"

text \<open>
  Modelled from the spec: runtraversal.RunTraversal is not among the sources. The
  traverser yields its (link, data) pairs in order; the callback is called on each, and
  the first error it returns ends the traversal and is returned; a traverser that runs
  to its end returns its own final error, or none.
\<close>

fun runLinks ::
  "(link \<Rightarrow> bytes \<Rightarrow> 's \<Rightarrow> error option \<times> 's) \<Rightarrow> (link \<times> bytes) list \<Rightarrow> 's \<Rightarrow> error option \<times> 's"
  where
  "runLinks cb [] s = (None, s)"
| "runLinks cb (y # ys) s =
     (case cb (fst y) (snd y) s of
        (Some e, s') \<Rightarrow> (Some e, s')
      | (None, s') \<Rightarrow> runLinks cb ys s')"

definition RunTraversal ::
  "traverser \<Rightarrow> (link \<Rightarrow> bytes \<Rightarrow> 's \<Rightarrow> error option \<times> 's) \<Rightarrow> 's \<Rightarrow> error option \<times> 's" where
  "RunTraversal tr cb s =
     (case runLinks cb (fst tr) s of
        (Some e, s') \<Rightarrow> (Some e, s')
      | (None, s') \<Rightarrow> (snd tr, s'))"

section \<open>The executor of responsemanager.go\<close>

datatype panic = NilPointerDereference

definition ResponseManager_prepareQuery ::
  "collaborators \<Rightarrow> contextID \<Rightarrow> peerID \<Rightarrow> request \<Rightarrow> effects \<Rightarrow>
   (loaderID option \<times> traverser option \<times> error option) \<times> effects" where
  "ResponseManager_prepareQuery C cx pr r st =
     (let result = ProcessRequestHooks C pr r;
          st1 = sendCalls (map (SendExtensionData (reqID r)) (rhExtensions result)) st
      in
      if rhErr result \<noteq> None \<or> \<not> rhIsValidated result then
        ((None, None, Some (ErrorsNew ''request not valid'')),
         sendCalls [FinishWithError (reqID r) RequestFailedUnknown] st1)
      else
        ((Some (case rhCustomLoader result of Some l \<Rightarrow> l | None \<Rightarrow> defaultLoader C),
          Some (TraversalBuilderStart C (reqRoot r) (reqSelector r) (rhCustomChooser result) cx),
          None),
         st1))"

text \<open>The function handed to RunTraversal by ResponseManager.executeQuery.\<close>

definition ResponseManager_sendBlock ::
  "collaborators \<Rightarrow> peerID \<Rightarrow> request \<Rightarrow> link \<Rightarrow> bytes \<Rightarrow> effects \<Rightarrow> error option \<times> effects"
  where
  "ResponseManager_sendBlock C pr r lnk dat st =
     (let blockData = sendResponseReply C (senderCalls st) lnk dat;
          st1 = sendCalls [SendResponse (reqID r) lnk dat] st
      in
      if bdSize blockData > 0 then
        (let result = ProcessBlockHooks C pr r blockData;
             st2 = sendCalls (map (SendExtensionData (reqID r)) (hrExtensions result)) st1
         in (hrErr result, st2))
      else (None, st1))"

definition ResponseManager_executeQuery ::
  "collaborators \<Rightarrow> peerID \<Rightarrow> request \<Rightarrow> loaderID \<Rightarrow> traverser \<Rightarrow> effects \<Rightarrow>
   error option \<times> effects" where
  "ResponseManager_executeQuery C pr r ld tr st =
     (case RunTraversal tr (ResponseManager_sendBlock C pr r) st of
        (Some e, st') \<Rightarrow>
          (Some e,
           if e \<noteq> ErrPaused then sendCalls [FinishWithError (reqID r) RequestFailedUnknown] st'
           else st')
      | (None, st') \<Rightarrow> (None, sendCalls [FinishRequest (reqID r)] st'))"

text \<open>
  ResponseManager.executeTask. The task data is a pointer, nil when the serializer found
  no entry; reading its fields then panics. \<open>ctxDone\<close> says that the select before
  the setResponseDataRequest took the branch of the manager's cancelled context.
\<close>

definition ResponseManager_executeTask ::
  "collaborators \<Rightarrow> bool \<Rightarrow> responseKey \<Rightarrow> responseTaskData option \<Rightarrow> effects \<Rightarrow>
   panic + (error option \<times> effects)" where
  "ResponseManager_executeTask C ctxDone key taskData st =
     (case taskData of
        None \<Rightarrow> Inl NilPointerDereference
      | Some td \<Rightarrow>
          (case (tdLoader td, tdTraverser td) of
             (Some ld, Some tr) \<Rightarrow>
               Inr (ResponseManager_executeQuery C (keyP key) (tdRequest td) ld tr st)
           | _ \<Rightarrow>
               (case ResponseManager_prepareQuery C (tdCtx td) (keyP key) (tdRequest td) st of
                  ((_, _, Some e), st1) \<Rightarrow> Inr (Some e, st1)
                | ((Some ld, Some tr, None), st1) \<Rightarrow>
                    if ctxDone then Inr (None, st1)
                    else Inr (ResponseManager_executeQuery C (keyP key) (tdRequest td) ld tr
                               (sendMessage (SetResponseDataRequest key (Some ld) (Some tr)) st1))
                | ((_, _, None), st1) \<Rightarrow> Inl NilPointerDereference)))"

text \<open>
  The body of the loop over the popped tasks in ResponseManager.processQueriesWorker,
  from the reply received on taskDataChan on. \<open>sendDone\<close> says that the select of the
  finishTaskRequest took the branch of the cancelled context.
\<close>

definition ResponseManager_processTask ::
  "collaborators \<Rightarrow> bool \<Rightarrow> bool \<Rightarrow> responseKey \<Rightarrow> responseTaskData option \<Rightarrow> effects \<Rightarrow>
   panic + effects" where
  "ResponseManager_processTask C ctxDone sendDone key taskData st =
     (case ResponseManager_executeTask C ctxDone key taskData st of
        Inl pn \<Rightarrow> Inl pn
      | Inr (err, st1) \<Rightarrow>
          Inr (if sendDone then st1 else sendMessage (FinishTask key err) st1))"

section \<open>The query executor\<close>

text \<open>strings.Contains\<close>

fun Contains :: "string \<Rightarrow> string \<Rightarrow> bool" where
  "Contains [] substr = (substr = [])"
| "Contains (c # cs) substr = (prefix substr (c # cs) \<or> Contains cs substr)"

text \<open>The Error method of an error value.\<close>

fun Error :: "collaborators \<Rightarrow> error \<Rightarrow> string" where
  "Error C ErrPaused = pausedText C"
| "Error C ErrCancelledByCommand = ''response cancelled by responder''"
| "Error C ContextCancelError = contextCancelText C"
| "Error C (ErrorsNew s) = s"

definition isContextErr :: "collaborators \<Rightarrow> error \<Rightarrow> bool" where
  "isContextErr C err = Contains (Error C err) (Error C ContextCancelError)"

text \<open>
  What one select of checkForUpdates receives: a value of stopSignal, of pauseSignal or
  of updateSignal, or nothing (the default branch). For updateSignal the first flag says
  that the responseUpdateRequest was put on the messages channel (rather than the
  executor's context being done), and the option is the list received on updateChan,
  None when the context was done instead. The signals of a task are the list of what
  its successive selects receive; at its end nothing is pending.
\<close>

datatype selectCase =
    StopSignal bool
  | PauseSignal
  | UpdateSignal bool "request list option"
  | Default

record responseTaskDataQE = responseTaskData +
  tdEmpty :: bool
  tdSignals :: "selectCase list"

text \<open>The loop over the updates received on updateChan.\<close>

fun processUpdates ::
  "collaborators \<Rightarrow> peerID \<Rightarrow> request \<Rightarrow> request list \<Rightarrow> effects \<Rightarrow> error option \<times> effects"
  where
  "processUpdates C pr r [] st = (None, st)"
| "processUpdates C pr r (update # updates) st =
     (let result = ProcessUpdateHooks C pr r update;
          st1 = sendCalls (map (SendExtensionData (reqID r)) (hrExtensions result)) st
      in case hrErr result of
           Some e \<Rightarrow> (Some e, st1)
         | None \<Rightarrow> processUpdates C pr r updates st1)"

fun checkForUpdates ::
  "collaborators \<Rightarrow> peerID \<Rightarrow> request \<Rightarrow> selectCase list \<Rightarrow> effects \<Rightarrow>
   error option \<times> selectCase list \<times> effects" where
  "checkForUpdates C pr r [] st = (None, [], st)"
| "checkForUpdates C pr r (Default # signals) st = (None, signals, st)"
| "checkForUpdates C pr r (StopSignal selfCancelled # signals) st =
     (if selfCancelled then (Some ErrCancelledByCommand, signals, st)
      else (Some ContextCancelError, signals, st))"
| "checkForUpdates C pr r (PauseSignal # signals) st =
     (Some ErrPaused, signals, sendCalls [PauseRequest (reqID r)] st)"
| "checkForUpdates C pr r (UpdateSignal sent reply # signals) st =
     (let st1 = (if sent
                 then sendMessage (ResponseUpdateRequest \<lparr>keyP = pr, keyRequestID = reqID r\<rparr>) st
                 else st)
      in case reply of
           None \<Rightarrow> checkForUpdates C pr r signals st1
         | Some updates \<Rightarrow>
             (case processUpdates C pr r updates st1 of
                (Some e, st2) \<Rightarrow> (Some e, signals, st2)
              | (None, st2) \<Rightarrow> checkForUpdates C pr r signals st2))"

text \<open>
  The function handed to RunTraversal by queryExecutor.executeQuery; the state it threads
  is the signals still to be received and the effects so far.

  Modelled from the spec: the sender's Transaction is not among the sources; it runs the
  function it is given and returns what that function returns.
\<close>

definition queryExecutor_sendBlock ::
  "collaborators \<Rightarrow> peerID \<Rightarrow> request \<Rightarrow> link \<Rightarrow> bytes \<Rightarrow> selectCase list \<times> effects \<Rightarrow>
   error option \<times> (selectCase list \<times> effects)" where
  "queryExecutor_sendBlock C pr r lnk dat s =
     (case checkForUpdates C pr r (fst s) (snd s) of
        (err, signals, st1) \<Rightarrow>
          if err \<noteq> Some ErrPaused \<and> err \<noteq> None then (err, (signals, st1))
          else
            (let blockData = sendResponseReply C (senderCalls st1) lnk dat;
                 st2 = sendCalls [SendResponse (reqID r) lnk dat] st1
             in
             if bdSize blockData > 0 then
               (let result = ProcessBlockHooks C pr r blockData;
                    st3 = sendCalls (map (SendExtensionData (reqID r)) (hrExtensions result)) st2;
                    st4 = (if hrErr result = Some ErrPaused
                           then sendCalls [PauseRequest (reqID r)] st3 else st3)
                in (if hrErr result \<noteq> None then hrErr result else err, (signals, st4)))
             else (err, (signals, st2))))"

definition queryExecutor_executeQuery ::
  "collaborators \<Rightarrow> peerID \<Rightarrow> request \<Rightarrow> loaderID \<Rightarrow> traverser \<Rightarrow> selectCase list \<Rightarrow> effects \<Rightarrow>
   (ResponseStatusCode \<times> error option) \<times> effects" where
  "queryExecutor_executeQuery C pr r ld tr signals st =
     (case RunTraversal tr (queryExecutor_sendBlock C pr r) (signals, st) of
        (Some e, (_, st')) \<Rightarrow>
          if e = ErrPaused then ((RequestPaused, Some e), st')
          else if isContextErr C e then
            ((RequestCancelled, Some e), sendCalls [FinishWithCancel (reqID r)] st')
          else if e = ErrCancelledByCommand then
            ((RequestCancelled, Some e),
             sendCalls [FinishWithError (reqID r) RequestCancelled] st')
          else
            ((RequestFailedUnknown, Some e),
             sendCalls [FinishWithError (reqID r) RequestFailedUnknown] st')
      | (None, (_, st')) \<Rightarrow>
          ((finishRequestReply C (senderCalls st'), None),
           sendCalls [FinishRequest (reqID r)] st'))"

text \<open>
  Modelled from the spec: the names of the two extensions (graphsync.ExtensionDeDupByKey
  and graphsync.ExtensionDoNotSendCIDs) are not among the sources.
\<close>

definition ExtensionDeDupByKey :: string where
  "ExtensionDeDupByKey = ''dedup-by-key''"

definition ExtensionDoNotSendCIDs :: string where
  "ExtensionDoNotSendCIDs = ''do-not-send-cids''"

definition processDedupByKey :: "collaborators \<Rightarrow> request \<Rightarrow> effects \<Rightarrow> error option \<times> effects"
  where
  "processDedupByKey C r st =
     (case map_of (reqExtensions r) ExtensionDeDupByKey of
        None \<Rightarrow> (None, st)
      | Some dedupData \<Rightarrow>
          (case DecodeDedupKey C dedupData of
             Inl e \<Rightarrow> (Some e, sendCalls [FinishWithError (reqID r) RequestFailedUnknown] st)
           | Inr k \<Rightarrow> (None, sendCalls [DedupKey (reqID r) k] st)))"

text \<open>
  The function given to cidSet.ForEach returns no error, so its error branch is not
  taken; the links are those of the decoded set.
\<close>

definition processDoNoSendCids :: "collaborators \<Rightarrow> request \<Rightarrow> effects \<Rightarrow> error option \<times> effects"
  where
  "processDoNoSendCids C r st =
     (case map_of (reqExtensions r) ExtensionDoNotSendCIDs of
        None \<Rightarrow> (None, st)
      | Some doNotSendCidsData \<Rightarrow>
          (case DecodeCidSet C doNotSendCidsData of
             Inl e \<Rightarrow> (Some e, sendCalls [FinishWithError (reqID r) RequestFailedUnknown] st)
           | Inr links \<Rightarrow> (None, sendCalls [IgnoreBlocks (reqID r) links] st)))"

definition queryExecutor_prepareQuery ::
  "collaborators \<Rightarrow> contextID \<Rightarrow> peerID \<Rightarrow> request \<Rightarrow> effects \<Rightarrow>
   (loaderID option \<times> traverser option \<times> bool \<times> error option) \<times> effects" where
  "queryExecutor_prepareQuery C cx pr r st =
     (let result = ProcessRequestHooks C pr r;
          st1 = sendCalls (map (SendExtensionData (reqID r)) (rhExtensions result)) st
      in
      if rhErr result \<noteq> None \<or> \<not> rhIsValidated result then
        ((None, None, False, Some (ErrorsNew ''request not valid'')),
         sendCalls [FinishWithError (reqID r) RequestFailedUnknown] st1)
      else
        (let isPaused = rhIsPaused result;
             st2 = (if isPaused then sendCalls [PauseRequest (reqID r)] st1 else st1)
         in
         case processDedupByKey C r st2 of
           (Some e, st3) \<Rightarrow> ((None, None, False, Some e), st3)
         | (None, st3) \<Rightarrow>
             (case processDoNoSendCids C r st3 of
                (Some e, st4) \<Rightarrow> ((None, None, False, Some e), st4)
              | (None, st4) \<Rightarrow>
                  ((Some (case rhCustomLoader result of Some l \<Rightarrow> l | None \<Rightarrow> defaultLoader C),
                    Some (TraversalBuilderStart C (reqRoot r) (reqSelector r)
                            (rhCustomChooser result) cx),
                    isPaused, None),
                   st4))))"

text \<open>
  queryExecutor.executeTask; \<open>ctxDone\<close> as in ResponseManager.executeTask. A nil
  loader or traverser with a nil error, which prepareQuery never returns, would be
  called by RunTraversal.
\<close>

definition queryExecutor_executeTask ::
  "collaborators \<Rightarrow> bool \<Rightarrow> responseKey \<Rightarrow> responseTaskDataQE \<Rightarrow> effects \<Rightarrow>
   panic + ((ResponseStatusCode \<times> error option) \<times> effects)" where
  "queryExecutor_executeTask C ctxDone key taskData st =
     (case (tdLoader taskData, tdTraverser taskData) of
        (Some ld, Some tr) \<Rightarrow>
          Inr (queryExecutor_executeQuery C (keyP key) (tdRequest taskData) ld tr
                 (tdSignals taskData) st)
      | _ \<Rightarrow>
          (case queryExecutor_prepareQuery C (tdCtx taskData) (keyP key) (tdRequest taskData) st of
             ((_, _, _, Some e), st1) \<Rightarrow> Inr ((RequestFailedUnknown, Some e), st1)
           | ((ld, tr, paused, None), st1) \<Rightarrow>
               if ctxDone then
                 Inr ((RequestFailedUnknown, Some (ErrorsNew ''context cancelled'')), st1)
               else
                 (let st2 = sendMessage (SetResponseDataRequest key ld tr) st1 in
                  if paused then Inr ((RequestPaused, Some ErrPaused), st2)
                  else
                    (case (ld, tr) of
                       (Some ld', Some tr') \<Rightarrow>
                         Inr (queryExecutor_executeQuery C (keyP key) (tdRequest taskData)
                                ld' tr' (tdSignals taskData) st2)
                     | _ \<Rightarrow> Inl NilPointerDereference))))"

text \<open>
  The body of the loop over the popped tasks in queryExecutor.processQueriesWorker, from
  the reply received on taskDataChan on; \<open>sendDone\<close> as in
  ResponseManager.processQueriesWorker.
\<close>

definition queryExecutor_processTask ::
  "collaborators \<Rightarrow> bool \<Rightarrow> bool \<Rightarrow> responseKey \<Rightarrow> responseTaskDataQE \<Rightarrow> effects \<Rightarrow>
   panic + effects" where
  "queryExecutor_processTask C ctxDone sendDone key taskData st =
     (if tdEmpty taskData then
        Inr (st\<lparr>logLines := logLines st @ [''Empty task on peer request stack'']\<rparr>)
      else
        (case queryExecutor_executeTask C ctxDone key taskData st of
           Inl pn \<Rightarrow> Inl pn
         | Inr ((status, err), st1) \<Rightarrow>
             (let isPaused = (err = Some ErrPaused);
                  isCancelled = (case err of Some e \<Rightarrow> isContextErr C e | None \<Rightarrow> False);
                  st2 = (if isCancelled then
                           st1\<lparr>listenerCalls := listenerCalls st1 @
                                 [NotifyCancelledListeners (keyP key) (tdRequest taskData)]\<rparr>
                         else if \<not> isPaused then
                           st1\<lparr>listenerCalls := listenerCalls st1 @
                                 [NotifyCompletedListeners (keyP key) (tdRequest taskData) status]\<rparr>
                         else st1)
              in Inr (if sendDone then st2
                      else sendMessage (FinishTaskStatus key status err) st2))))"

section \<open>Sequences of finishTask messages\<close>



section \<open>Example values\<close>

definition emptyManager :: ResponseManager where
  "emptyManager = \<lparr>inProgressResponses = Map.empty, queueCalls = [], workSignal = False,
     cancelCalls = [], nextCtx = 0\<rparr>"

definition exampleRequest :: request where
  "exampleRequest = \<lparr>reqID = 1, reqRoot = 5, reqSelector = 0, reqPriority = 3,
     reqExtensions = [], reqIsCancel = False, reqIsUpdate = False\<rparr>"

definition exampleKey :: responseKey where
  "exampleKey = \<lparr>keyP = 7, keyRequestID = 1\<rparr>"

definition pausedEntry :: inProgressResponseStatus where
  "pausedEntry = \<lparr>ctx = 0, request = exampleRequest, loader = Some 2,
     traverser = Some ([(6, [1])], None), isPaused = True\<rparr>"

definition pausedManager :: ResponseManager where
  "pausedManager = \<lparr>inProgressResponses = [exampleKey \<mapsto> pausedEntry], queueCalls = [],
     workSignal = False, cancelCalls = [], nextCtx = 1\<rparr>"

definition noEffects :: effects where
  "noEffects = \<lparr>senderCalls = [], messagesSent = [], listenerCalls = [], logLines = []\<rparr>"

text \<open>
  Request hooks that validate a request when its selector is 0; block hooks that pause at
  link 6; a sender that answers with the length of the data as the size of the block.
\<close>

definition exampleCollaborators :: collaborators where
  "exampleCollaborators =
     \<lparr>ProcessRequestHooks = (\<lambda>pr r.
        \<lparr>rhExtensions = [(''seen'', [])], rhErr = None, rhIsValidated = (reqSelector r = 0),
         rhIsPaused = False, rhCustomLoader = None, rhCustomChooser = None\<rparr>),
      ProcessBlockHooks = (\<lambda>pr r bd.
        \<lparr>hrExtensions = [(''block'', [bdLink bd])],
         hrErr = (if bdLink bd = 6 then Some ErrPaused else None)\<rparr>),
      ProcessUpdateHooks = (\<lambda>pr r u. \<lparr>hrExtensions = [], hrErr = None\<rparr>),
      sendResponseReply = (\<lambda>calls lnk dat.
        \<lparr>bdLink = lnk, bdSize = length dat, bdIndex = length calls\<rparr>),
      finishRequestReply = (\<lambda>calls. RequestCompletedFull),
      DecodeDedupKey = (\<lambda>b. Inr ''key''),
      DecodeCidSet = (\<lambda>b. Inr []),
      TraversalBuilderStart = (\<lambda>root sel ch cx. ([(root, [1])], None)),
      defaultLoader = 0,
      contextCancelText = ''Context cancelled'',
      pausedText = ''request has been paused''\<rparr>"

lemmas examples = emptyManager_def exampleRequest_def exampleKey_def pausedEntry_def
  pausedManager_def noEffects_def exampleCollaborators_def

section \<open>Auxiliary facts\<close>

lemma sendCalls_sendCalls: "sendCalls b (sendCalls a st) = sendCalls (a @ b) st"
  by (simp add: sendCalls_def)




lemma processUpdates_blockHooks:
  "processUpdates (C\<lparr>ProcessBlockHooks := h\<rparr>) pr r us st = processUpdates C pr r us st"
  by (induction us arbitrary: st) (simp_all add: Let_def split: option.splits)

lemma checkForUpdates_blockHooks:
  "checkForUpdates (C\<lparr>ProcessBlockHooks := h\<rparr>) pr r signals st = checkForUpdates C pr r signals st"
proof (induction signals arbitrary: st)
  case Nil
  then show ?case by simp
next
  case (Cons s signals)
  then show ?case
    by (cases s) (simp_all add: Let_def processUpdates_blockHooks split: option.splits prod.splits)
qed

text \<open>
  queryExecutor.processQueriesWorker on an empty reply: a log line, then the next task.
\<close>

lemma queryExecutor_processTask_empty:
  "tdEmpty td \<Longrightarrow>
     queryExecutor_processTask C ctxDone sendDone key td st =
       Inr (st\<lparr>logLines := logLines st @ [''Empty task on peer request stack'']\<rparr>)"
  by (simp add: queryExecutor_processTask_def)

section \<open>The claims\<close>

text \<open>
  Claim C1, as the code has it. In queryExecutor.executeQuery, whatever the traversal
  returns: the paused error gives no finish call and the status RequestPaused; any other
  error that isContextErr recognises gives FinishWithCancel and RequestCancelled;
  errCancelledByCommand (when its text has not the text of the context error in it) gives
  FinishWithError(RequestCancelled) and RequestCancelled; any other error gives
  FinishWithError(RequestFailedUnknown) and RequestFailedUnknown; a traversal that ends
  with no error gives FinishRequest, whose answer is the status. ResponseManager.executeQuery
  reports no status: the paused error gives no finish call, every other error gives
  FinishWithError(RequestFailedUnknown), and no error gives FinishRequest.
\<close>

theorem C1_executeQuery_status:
  "(RunTraversal tr (queryExecutor_sendBlock C pr r) (signals, st) = (res, (signals', st')) \<longrightarrow>
      (res = Some ErrPaused \<longrightarrow>
         queryExecutor_executeQuery C pr r ld tr signals st =
           ((RequestPaused, Some ErrPaused), st'))
    \<and> (\<forall>e. res = Some e \<and> e \<noteq> ErrPaused \<and> isContextErr C e \<longrightarrow>
         queryExecutor_executeQuery C pr r ld tr signals st =
           ((RequestCancelled, Some e), sendCalls [FinishWithCancel (reqID r)] st'))
    \<and> (res = Some ErrCancelledByCommand \<and> \<not> isContextErr C ErrCancelledByCommand \<longrightarrow>
         queryExecutor_executeQuery C pr r ld tr signals st =
           ((RequestCancelled, Some ErrCancelledByCommand),
            sendCalls [FinishWithError (reqID r) RequestCancelled] st'))
    \<and> (\<forall>e. res = Some e \<and> e \<noteq> ErrPaused \<and> e \<noteq> ErrCancelledByCommand \<and> \<not> isContextErr C e \<longrightarrow>
         queryExecutor_executeQuery C pr r ld tr signals st =
           ((RequestFailedUnknown, Some e),
            sendCalls [FinishWithError (reqID r) RequestFailedUnknown] st'))
    \<and> (res = None \<longrightarrow>
         queryExecutor_executeQuery C pr r ld tr signals st =
           ((finishRequestReply C (senderCalls st'), None),
            sendCalls [FinishRequest (reqID r)] st')))
   \<and> (RunTraversal tr (ResponseManager_sendBlock C pr r) st0 = (res0, st0') \<longrightarrow>
      (res0 = Some ErrPaused \<longrightarrow>
         ResponseManager_executeQuery C pr r ld tr st0 = (Some ErrPaused, st0'))
    \<and> (\<forall>e. res0 = Some e \<and> e \<noteq> ErrPaused \<longrightarrow>
         ResponseManager_executeQuery C pr r ld tr st0 =
           (Some e, sendCalls [FinishWithError (reqID r) RequestFailedUnknown] st0'))
    \<and> (res0 = None \<longrightarrow>
         ResponseManager_executeQuery C pr r ld tr st0 =
           (None, sendCalls [FinishRequest (reqID r)] st0')))"
  by (simp add: queryExecutor_executeQuery_def ResponseManager_executeQuery_def)

theorem C1_old_counterexample:
  "ResponseManager_executeQuery exampleCollaborators 7 exampleRequest 0
     ([], Some ContextCancelError) noEffects
   = (Some ContextCancelError,
      \<lparr>senderCalls = [FinishWithError 1 RequestFailedUnknown], messagesSent = [],
       listenerCalls = [], logLines = []\<rparr>)"
  by (simp add: ResponseManager_executeQuery_def RunTraversal_def sendCalls_def examples)

theorem C1_executeQuery_status_witness:
  "queryExecutor_executeQuery exampleCollaborators 7 exampleRequest 0
     ([], Some ContextCancelError) [] noEffects
   = ((RequestCancelled, Some ContextCancelError),
      \<lparr>senderCalls = [FinishWithCancel 1], messagesSent = [], listenerCalls = [], logLines = []\<rparr>)
   \<and> queryExecutor_executeQuery exampleCollaborators 7 exampleRequest 0
     ([(5, [1])], None) [StopSignal True] noEffects
   = ((RequestCancelled, Some ErrCancelledByCommand),
      \<lparr>senderCalls = [FinishWithError 1 RequestCancelled], messagesSent = [],
       listenerCalls = [], logLines = []\<rparr>)
   \<and> queryExecutor_executeQuery exampleCollaborators 7 exampleRequest 0
     ([], Some (ErrorsNew ''block not found'')) [] noEffects
   = ((RequestFailedUnknown, Some (ErrorsNew ''block not found'')),
      \<lparr>senderCalls = [FinishWithError 1 RequestFailedUnknown], messagesSent = [],
       listenerCalls = [], logLines = []\<rparr>)
   \<and> queryExecutor_executeQuery exampleCollaborators 7 exampleRequest 0
     ([(5, [])], None) [PauseSignal] noEffects
   = ((RequestPaused, Some ErrPaused),
      \<lparr>senderCalls = [PauseRequest 1, SendResponse 1 5 []], messagesSent = [],
       listenerCalls = [], logLines = []\<rparr>)
   \<and> queryExecutor_executeQuery exampleCollaborators 7 exampleRequest 0
     ([(5, [])], None) [] noEffects
   = ((RequestCompletedFull, None),
      \<lparr>senderCalls = [SendResponse 1 5 [], FinishRequest 1], messagesSent = [],
       listenerCalls = [], logLines = []\<rparr>)
   \<and> ResponseManager_executeQuery exampleCollaborators 7 exampleRequest 0
     ([(5, [])], None) noEffects
   = (None,
      \<lparr>senderCalls = [SendResponse 1 5 [], FinishRequest 1],
       messagesSent = [], listenerCalls = [], logLines = []\<rparr>)"
  using C1_executeQuery_status [where tr = "([], Some ContextCancelError)"
          and C = exampleCollaborators and pr = 7 and r = exampleRequest and signals = "[]"
          and st = noEffects and res = "Some ContextCancelError" and signals' = "[]"
          and st' = noEffects and ld = 0 and st0 = noEffects
          and res0 = "Some ContextCancelError" and st0' = noEffects]
        C1_executeQuery_status [where tr = "([(5, [])], None)"
          and C = exampleCollaborators and pr = 7 and r = exampleRequest
          and signals = "[PauseSignal]" and st = noEffects and res = "Some ErrPaused"
          and signals' = "[]"
          and st' = "sendCalls [PauseRequest 1, SendResponse 1 5 []] noEffects" and ld = 0
          and st0 = noEffects and res0 = None
          and st0' = "sendCalls [SendResponse 1 5 []] noEffects"]
  by (simp add: queryExecutor_executeQuery_def ResponseManager_executeQuery_def
      RunTraversal_def queryExecutor_sendBlock_def ResponseManager_sendBlock_def
      isContextErr_def sendCalls_def Let_def examples)




text \<open>
  Claim C3, as the code has it. processRequestMessage.handle takes the requests in order.
  A request marked isCancel has Remove called on the queue for its key, and the cancelFn
  of the entry of that key invoked when there is one; the table is left as it is. Every
  other request, marked isUpdate or not, puts a new entry with a new context under its
  key, pushes a task with the priority of the request and work 1, and leaves a value in
  workSignal.
\<close>

theorem C3_handleRequest:
  "processRequestMessage_handle pr (requests @ [r]) rm =
     handleRequest pr (processRequestMessage_handle pr requests rm) r
   \<and> (reqIsCancel r \<longrightarrow>
        inProgressResponses (handleRequest pr rm r) = inProgressResponses rm
      \<and> queueCalls (handleRequest pr rm r) =
          queueCalls rm @ [Remove \<lparr>keyP = pr, keyRequestID = reqID r\<rparr> pr]
      \<and> cancelCalls (handleRequest pr rm r) = cancelCalls rm @
          (case inProgressResponses rm \<lparr>keyP = pr, keyRequestID = reqID r\<rparr> of
             Some response \<Rightarrow> [ctx response] | None \<Rightarrow> [])
      \<and> workSignal (handleRequest pr rm r) = workSignal rm
      \<and> nextCtx (handleRequest pr rm r) = nextCtx rm)
   \<and> (\<not> reqIsCancel r \<longrightarrow>
        inProgressResponses (handleRequest pr rm r) =
          (inProgressResponses rm)(\<lparr>keyP = pr, keyRequestID = reqID r\<rparr> \<mapsto>
             \<lparr>ctx = nextCtx rm, request = r, loader = None, traverser = None, isPaused = False\<rparr>)
      \<and> queueCalls (handleRequest pr rm r) = queueCalls rm @
          [PushTasks pr \<lparr>Topic = \<lparr>keyP = pr, keyRequestID = reqID r\<rparr>,
                         Priority = reqPriority r, Work = 1\<rparr>]
      \<and> workSignal (handleRequest pr rm r)
      \<and> cancelCalls (handleRequest pr rm r) = cancelCalls rm
      \<and> nextCtx (handleRequest pr rm r) = Suc (nextCtx rm))"
  by (simp add: processRequestMessage_handle_def handleRequest_def Let_def)

theorem C3_update_counterexample:
  "reqIsUpdate (exampleRequest\<lparr>reqIsUpdate := True\<rparr>)
   \<and> \<not> reqIsCancel (exampleRequest\<lparr>reqIsUpdate := True\<rparr>)
   \<and> inProgressResponses pausedManager exampleKey = Some pausedEntry
   \<and> inProgressResponses
        (processRequestMessage_handle 7 [exampleRequest\<lparr>reqIsUpdate := True\<rparr>] pausedManager)
        exampleKey
      = Some \<lparr>ctx = 1, request = exampleRequest\<lparr>reqIsUpdate := True\<rparr>, loader = None,
              traverser = None, isPaused = False\<rparr>
   \<and> queueCalls
        (processRequestMessage_handle 7 [exampleRequest\<lparr>reqIsUpdate := True\<rparr>] pausedManager)
      = [PushTasks 7 \<lparr>Topic = exampleKey, Priority = 3, Work = 1\<rparr>]"
  by (simp add: processRequestMessage_handle_def handleRequest_def Let_def examples)

theorem C3_handleRequest_witness:
  "queueCalls (handleRequest 7 pausedManager (exampleRequest\<lparr>reqIsCancel := True\<rparr>))
     = [Remove exampleKey 7]
   \<and> cancelCalls (handleRequest 7 pausedManager (exampleRequest\<lparr>reqIsCancel := True\<rparr>)) = [0]
   \<and> cancelCalls (handleRequest 7 emptyManager (exampleRequest\<lparr>reqIsCancel := True\<rparr>)) = []
   \<and> inProgressResponses (handleRequest 7 emptyManager (exampleRequest\<lparr>reqIsCancel := True\<rparr>))
     = Map.empty
   \<and> queueCalls (handleRequest 7 emptyManager exampleRequest)
     = [PushTasks 7 \<lparr>Topic = exampleKey, Priority = 3, Work = 1\<rparr>]
   \<and> workSignal (handleRequest 7 emptyManager exampleRequest)"
  using C3_handleRequest [of 7 "[]" "exampleRequest\<lparr>reqIsCancel := True\<rparr>" pausedManager]
        C3_handleRequest [of 7 "[]" "exampleRequest\<lparr>reqIsCancel := True\<rparr>" emptyManager]
        C3_handleRequest [of 7 "[]" exampleRequest emptyManager]
  by (simp add: examples)

text \<open>
  Claim C4. unpauseRequest returns an error and the state unchanged when the table has no
  entry for the key or the entry is not paused; otherwise it returns no error, the entry
  has isPaused false, a task of priority math.MaxInt32 is pushed for the key, and
  workSignal holds a value.
\<close>

theorem C4_unpauseRequest:
  "((inProgressResponses rm \<lparr>keyP = pr, keyRequestID = rid\<rparr> = None
      \<or> (\<exists>e. inProgressResponses rm \<lparr>keyP = pr, keyRequestID = rid\<rparr> = Some e \<and> \<not> isPaused e))
     \<longrightarrow> (\<exists>err. unpauseRequest pr rid rm = (Some err, rm)))
   \<and> (\<forall>e. inProgressResponses rm \<lparr>keyP = pr, keyRequestID = rid\<rparr> = Some e \<and> isPaused e
     \<longrightarrow> unpauseRequest pr rid rm =
          (None,
           rm\<lparr>inProgressResponses :=
                (inProgressResponses rm)(\<lparr>keyP = pr, keyRequestID = rid\<rparr> \<mapsto> e\<lparr>isPaused := False\<rparr>),
              queueCalls := queueCalls rm @
                [PushTasks pr \<lparr>Topic = \<lparr>keyP = pr, keyRequestID = rid\<rparr>,
                               Priority = 2147483647, Work = 1\<rparr>],
              workSignal := True\<rparr>))"
  by (auto simp add: unpauseRequest_def Let_def MaxInt32_def)

theorem C4_unpauseRequest_witness:
  "(\<exists>err. unpauseRequest 7 1 emptyManager = (Some err, emptyManager))
   \<and> (\<exists>err. unpauseRequest 7 1 (pausedManager\<lparr>inProgressResponses :=
                 [exampleKey \<mapsto> pausedEntry\<lparr>isPaused := False\<rparr>]\<rparr>)
          = (Some err, pausedManager\<lparr>inProgressResponses :=
                 [exampleKey \<mapsto> pausedEntry\<lparr>isPaused := False\<rparr>]\<rparr>))
   \<and> unpauseRequest 7 1 pausedManager =
       (None, \<lparr>inProgressResponses = [exampleKey \<mapsto> pausedEntry\<lparr>isPaused := False\<rparr>],
               queueCalls = [PushTasks 7 \<lparr>Topic = exampleKey, Priority = 2147483647, Work = 1\<rparr>],
               workSignal = True, cancelCalls = [], nextCtx = 1\<rparr>)"
  using C4_unpauseRequest [of emptyManager 7 1]
        C4_unpauseRequest [of "pausedManager\<lparr>inProgressResponses :=
                 [exampleKey \<mapsto> pausedEntry\<lparr>isPaused := False\<rparr>]\<rparr>" 7 1]
        C4_unpauseRequest [of pausedManager 7 1]
  by (simp add: examples)



text \<open>
  Claim C6. When the request hooks return an error or isValidated false, prepareQuery sends
  the extensions the hooks returned, then FinishWithError(RequestFailedUnknown), and
  returns the error with no loader and no traverser; executeTask returns that error with
  no other call on the sender, so no block is sent. This holds for queryExecutor and for
  ResponseManager.
\<close>

theorem C6_invalid_request:
  "rhErr (ProcessRequestHooks C pr r) \<noteq> None \<or> \<not> rhIsValidated (ProcessRequestHooks C pr r) \<Longrightarrow>
     queryExecutor_prepareQuery C cx pr r st =
       ((None, None, False, Some (ErrorsNew ''request not valid'')),
        sendCalls (map (SendExtensionData (reqID r)) (rhExtensions (ProcessRequestHooks C pr r))
                   @ [FinishWithError (reqID r) RequestFailedUnknown]) st)
   \<and> ResponseManager_prepareQuery C cx pr r st =
       ((None, None, Some (ErrorsNew ''request not valid'')),
        sendCalls (map (SendExtensionData (reqID r)) (rhExtensions (ProcessRequestHooks C pr r))
                   @ [FinishWithError (reqID r) RequestFailedUnknown]) st)
   \<and> (keyP key = pr \<and> tdRequest td = r \<and> (tdLoader td = None \<or> tdTraverser td = None) \<longrightarrow>
        queryExecutor_executeTask C ctxDone key td st =
          Inr ((RequestFailedUnknown, Some (ErrorsNew ''request not valid'')),
               sendCalls (map (SendExtensionData (reqID r))
                            (rhExtensions (ProcessRequestHooks C pr r))
                          @ [FinishWithError (reqID r) RequestFailedUnknown]) st))
   \<and> (keyP key = pr \<and> tdRequest td0 = r \<and> (tdLoader td0 = None \<or> tdTraverser td0 = None) \<longrightarrow>
        ResponseManager_executeTask C ctxDone key (Some td0) st =
          Inr (Some (ErrorsNew ''request not valid''),
               sendCalls (map (SendExtensionData (reqID r))
                            (rhExtensions (ProcessRequestHooks C pr r))
                          @ [FinishWithError (reqID r) RequestFailedUnknown]) st))"
proof -
  assume a: "rhErr (ProcessRequestHooks C pr r) \<noteq> None \<or> \<not> rhIsValidated (ProcessRequestHooks C pr r)"
  have q: "queryExecutor_prepareQuery C cx pr r st =
       ((None, None, False, Some (ErrorsNew ''request not valid'')),
        sendCalls (map (SendExtensionData (reqID r)) (rhExtensions (ProcessRequestHooks C pr r))
                   @ [FinishWithError (reqID r) RequestFailedUnknown]) st)" for cx
    using a by (auto simp add: queryExecutor_prepareQuery_def Let_def sendCalls_sendCalls)
  have o: "ResponseManager_prepareQuery C cx pr r st =
       ((None, None, Some (ErrorsNew ''request not valid'')),
        sendCalls (map (SendExtensionData (reqID r)) (rhExtensions (ProcessRequestHooks C pr r))
                   @ [FinishWithError (reqID r) RequestFailedUnknown]) st)" for cx
    using a by (auto simp add: ResponseManager_prepareQuery_def Let_def sendCalls_sendCalls)
  have qt: "keyP key = pr \<and> tdRequest td = r \<and> (tdLoader td = None \<or> tdTraverser td = None) \<longrightarrow>
        queryExecutor_executeTask C ctxDone key td st =
          Inr ((RequestFailedUnknown, Some (ErrorsNew ''request not valid'')),
               sendCalls (map (SendExtensionData (reqID r))
                            (rhExtensions (ProcessRequestHooks C pr r))
                          @ [FinishWithError (reqID r) RequestFailedUnknown]) st)"
    by (auto simp add: queryExecutor_executeTask_def q split: option.splits)
  have ot: "keyP key = pr \<and> tdRequest td0 = r \<and> (tdLoader td0 = None \<or> tdTraverser td0 = None) \<longrightarrow>
        ResponseManager_executeTask C ctxDone key (Some td0) st =
          Inr (Some (ErrorsNew ''request not valid''),
               sendCalls (map (SendExtensionData (reqID r))
                            (rhExtensions (ProcessRequestHooks C pr r))
                          @ [FinishWithError (reqID r) RequestFailedUnknown]) st)"
    by (auto simp add: ResponseManager_executeTask_def o split: option.splits)
  show ?thesis using q o qt ot by blast
qed

theorem C6_invalid_request_witness:
  "\<not> rhIsValidated (ProcessRequestHooks exampleCollaborators 7 (exampleRequest\<lparr>reqSelector := 1\<rparr>))
   \<and> queryExecutor_executeTask exampleCollaborators False exampleKey
        \<lparr>tdCtx = 0, tdRequest = exampleRequest\<lparr>reqSelector := 1\<rparr>, tdLoader = None,
         tdTraverser = None, tdEmpty = False, tdSignals = []\<rparr> noEffects
      = Inr ((RequestFailedUnknown, Some (ErrorsNew ''request not valid'')),
             \<lparr>senderCalls = [SendExtensionData 1 (''seen'', []),
                             FinishWithError 1 RequestFailedUnknown],
              messagesSent = [], listenerCalls = [], logLines = []\<rparr>)
   \<and> ResponseManager_executeTask exampleCollaborators False exampleKey
        (Some \<lparr>tdCtx = 0, tdRequest = exampleRequest\<lparr>reqSelector := 1\<rparr>, tdLoader = None,
               tdTraverser = None\<rparr>) noEffects
      = Inr (Some (ErrorsNew ''request not valid''),
             \<lparr>senderCalls = [SendExtensionData 1 (''seen'', []),
                             FinishWithError 1 RequestFailedUnknown],
              messagesSent = [], listenerCalls = [], logLines = []\<rparr>)"
proof -
  have h: "rhErr (ProcessRequestHooks exampleCollaborators 7 (exampleRequest\<lparr>reqSelector := 1\<rparr>))
             \<noteq> None
           \<or> \<not> rhIsValidated (ProcessRequestHooks exampleCollaborators 7
                  (exampleRequest\<lparr>reqSelector := 1\<rparr>))"
    by (simp add: examples)
  show ?thesis
    using C6_invalid_request [OF h, where key = exampleKey
        and td = "\<lparr>tdCtx = 0, tdRequest = exampleRequest\<lparr>reqSelector := 1\<rparr>, tdLoader = None,
         tdTraverser = None, tdEmpty = False, tdSignals = []\<rparr>"
        and ?td0.0 = "\<lparr>tdCtx = 0, tdRequest = exampleRequest\<lparr>reqSelector := 1\<rparr>, tdLoader = None,
               tdTraverser = None\<rparr>" and cx = 0 and st = noEffects and ctxDone = False]
    by (simp add: sendCalls_def examples)
qed

text \<open>
  Claim C7, as the code has it. For a block sent with SendResponse: when the size
  returned is 0 the result does not depend on the block hooks, and nothing follows
  SendResponse; when it is positive the extensions of the block hooks follow in order, and
  an error of the hooks is returned. In queryExecutor.executeQuery a paused result of the
  hooks is followed by PauseRequest; in ResponseManager.executeQuery it is returned like
  any other error, with no call of PauseRequest.
\<close>

theorem C7_block_hooks:
  "(checkForUpdates C pr r signals st = (err0, signals', st1)
      \<and> (err0 = None \<or> err0 = Some ErrPaused) \<longrightarrow>
      (bdSize (sendResponseReply C (senderCalls st1) lnk dat) = 0 \<longrightarrow>
         (\<forall>h. queryExecutor_sendBlock (C\<lparr>ProcessBlockHooks := h\<rparr>) pr r lnk dat (signals, st) =
            (err0, (signals', sendCalls [SendResponse (reqID r) lnk dat] st1))))
    \<and> (bdSize (sendResponseReply C (senderCalls st1) lnk dat) > 0 \<longrightarrow>
         queryExecutor_sendBlock C pr r lnk dat (signals, st) =
           (let result = ProcessBlockHooks C pr r (sendResponseReply C (senderCalls st1) lnk dat)
            in (if hrErr result \<noteq> None then hrErr result else err0,
                (signals',
                 sendCalls ([SendResponse (reqID r) lnk dat]
                            @ map (SendExtensionData (reqID r)) (hrExtensions result)
                            @ (if hrErr result = Some ErrPaused
                               then [PauseRequest (reqID r)] else [])) st1)))))
   \<and> (bdSize (sendResponseReply C (senderCalls st) lnk dat) = 0 \<longrightarrow>
        (\<forall>h. ResponseManager_sendBlock (C\<lparr>ProcessBlockHooks := h\<rparr>) pr r lnk dat st =
           (None, sendCalls [SendResponse (reqID r) lnk dat] st)))
   \<and> (bdSize (sendResponseReply C (senderCalls st) lnk dat) > 0 \<longrightarrow>
        ResponseManager_sendBlock C pr r lnk dat st =
          (let result = ProcessBlockHooks C pr r (sendResponseReply C (senderCalls st) lnk dat)
           in (hrErr result,
               sendCalls ([SendResponse (reqID r) lnk dat]
                          @ map (SendExtensionData (reqID r)) (hrExtensions result)) st)))"
proof -
  have a: "checkForUpdates C pr r signals st = (err0, signals', st1)
      \<and> (err0 = None \<or> err0 = Some ErrPaused) \<longrightarrow>
      (bdSize (sendResponseReply C (senderCalls st1) lnk dat) = 0 \<longrightarrow>
         (\<forall>h. queryExecutor_sendBlock (C\<lparr>ProcessBlockHooks := h\<rparr>) pr r lnk dat (signals, st) =
            (err0, (signals', sendCalls [SendResponse (reqID r) lnk dat] st1))))"
    by (auto simp add: queryExecutor_sendBlock_def checkForUpdates_blockHooks Let_def)
  have b: "checkForUpdates C pr r signals st = (err0, signals', st1)
      \<and> (err0 = None \<or> err0 = Some ErrPaused) \<longrightarrow>
      (bdSize (sendResponseReply C (senderCalls st1) lnk dat) > 0 \<longrightarrow>
         queryExecutor_sendBlock C pr r lnk dat (signals, st) =
           (let result = ProcessBlockHooks C pr r (sendResponseReply C (senderCalls st1) lnk dat)
            in (if hrErr result \<noteq> None then hrErr result else err0,
                (signals',
                 sendCalls ([SendResponse (reqID r) lnk dat]
                            @ map (SendExtensionData (reqID r)) (hrExtensions result)
                            @ (if hrErr result = Some ErrPaused
                               then [PauseRequest (reqID r)] else [])) st1))))"
    by (auto simp add: queryExecutor_sendBlock_def Let_def sendCalls_def)
  have c: "bdSize (sendResponseReply C (senderCalls st) lnk dat) = 0 \<longrightarrow>
        (\<forall>h. ResponseManager_sendBlock (C\<lparr>ProcessBlockHooks := h\<rparr>) pr r lnk dat st =
           (None, sendCalls [SendResponse (reqID r) lnk dat] st))"
    by (simp add: ResponseManager_sendBlock_def Let_def)
  have d: "bdSize (sendResponseReply C (senderCalls st) lnk dat) > 0 \<longrightarrow>
        ResponseManager_sendBlock C pr r lnk dat st =
          (let result = ProcessBlockHooks C pr r (sendResponseReply C (senderCalls st) lnk dat)
           in (hrErr result,
               sendCalls ([SendResponse (reqID r) lnk dat]
                          @ map (SendExtensionData (reqID r)) (hrExtensions result)) st))"
    by (simp add: ResponseManager_sendBlock_def Let_def sendCalls_def)
  show ?thesis using a b c d by blast
qed

theorem C7_old_pause_counterexample:
  "hrErr (ProcessBlockHooks exampleCollaborators 7 exampleRequest
            (sendResponseReply exampleCollaborators [] 6 [1])) = Some ErrPaused
   \<and> ResponseManager_sendBlock exampleCollaborators 7 exampleRequest 6 [1] noEffects
     = (Some ErrPaused,
        \<lparr>senderCalls = [SendResponse 1 6 [1], SendExtensionData 1 (''block'', [6])],
         messagesSent = [], listenerCalls = [], logLines = []\<rparr>)
   \<and> ResponseManager_executeQuery exampleCollaborators 7 exampleRequest 0 ([(6, [1])], None)
        noEffects
     = (Some ErrPaused,
        \<lparr>senderCalls = [SendResponse 1 6 [1], SendExtensionData 1 (''block'', [6])],
         messagesSent = [], listenerCalls = [], logLines = []\<rparr>)"
  by (simp add: ResponseManager_sendBlock_def ResponseManager_executeQuery_def RunTraversal_def
      sendCalls_def Let_def examples)

theorem C7_block_hooks_witness:
  "queryExecutor_sendBlock exampleCollaborators 7 exampleRequest 6 [1] ([], noEffects)
     = (Some ErrPaused,
        ([], \<lparr>senderCalls = [SendResponse 1 6 [1], SendExtensionData 1 (''block'', [6]),
                              PauseRequest 1],
              messagesSent = [], listenerCalls = [], logLines = []\<rparr>))
   \<and> queryExecutor_sendBlock
        (exampleCollaborators\<lparr>ProcessBlockHooks :=
           (\<lambda>pr r bd. \<lparr>hrExtensions = [(''never'', [])], hrErr = Some ErrCancelledByCommand\<rparr>)\<rparr>)
        7 exampleRequest 6 [] ([], noEffects)
     = (None,
        ([], \<lparr>senderCalls = [SendResponse 1 6 []],
              messagesSent = [], listenerCalls = [], logLines = []\<rparr>))
   \<and> ResponseManager_sendBlock
        (exampleCollaborators\<lparr>ProcessBlockHooks :=
           (\<lambda>pr r bd. \<lparr>hrExtensions = [(''never'', [])], hrErr = Some ErrCancelledByCommand\<rparr>)\<rparr>)
        7 exampleRequest 6 [] noEffects
     = (None,
        \<lparr>senderCalls = [SendResponse 1 6 []],
         messagesSent = [], listenerCalls = [], logLines = []\<rparr>)"
  using C7_block_hooks [of exampleCollaborators 7 exampleRequest "[]" noEffects None "[]"
          noEffects 6 "[1]"]
        C7_block_hooks [of exampleCollaborators 7 exampleRequest "[]" noEffects None "[]"
          noEffects 6 "[]"]
  by (simp add: sendCalls_def Let_def examples)

text \<open>
  Claim C8, where the code fails it. When the table has no entry for the key of a popped
  task, responseDataRequest.handle replies nil, and ResponseManager.processQueriesWorker
  passes it to executeTask, which reads its loader field: a nil pointer dereference.
\<close>

theorem C8_nil_task_data:
  "inProgressResponses rm key = None \<Longrightarrow>
     responseDataRequest_handle rm key = None
   \<and> ResponseManager_executeTask C ctxDone key (responseDataRequest_handle rm key) st
       = Inl NilPointerDereference
   \<and> ResponseManager_processTask C ctxDone sendDone key (responseDataRequest_handle rm key) st
       = Inl NilPointerDereference"
  by (simp add: responseDataRequest_handle_def ResponseManager_executeTask_def
      ResponseManager_processTask_def)

theorem C8_nil_task_data_witness:
  "inProgressResponses emptyManager exampleKey = None
   \<and> ResponseManager_processTask exampleCollaborators False False exampleKey
        (responseDataRequest_handle emptyManager exampleKey) noEffects
      = Inl NilPointerDereference"
proof -
  have h: "inProgressResponses emptyManager exampleKey = None"
    by (simp add: examples)
  show ?thesis
    using h C8_nil_task_data [OF h, where C = exampleCollaborators and ctxDone = False
        and st = noEffects and sendDone = False]
    by blast
qed

text \<open>
  Claim C9. A finishTask message for a key that is not in the table leaves the whole state
  of the serializer as it is: the table, the calls on the queue, workSignal, and the
  cancelFn invocations.
\<close>

theorem C9_finishTask_absent:
  "inProgressResponses rm key = None \<Longrightarrow> finishTaskRequest_handle key err rm = rm"
  by (simp add: finishTaskRequest_handle_def)

theorem C9_finishTask_absent_witness:
  "inProgressResponses pausedManager \<lparr>keyP = 7, keyRequestID = 2\<rparr> = None
   \<and> finishTaskRequest_handle \<lparr>keyP = 7, keyRequestID = 2\<rparr> (Some (ErrorsNew ''x'')) pausedManager
       = pausedManager"
proof -
  have h: "inProgressResponses pausedManager \<lparr>keyP = 7, keyRequestID = 2\<rparr> = None"
    by (simp add: examples)
  show ?thesis using h C9_finishTask_absent [OF h] by simp
qed

end
